theory Spec2Isabelle
  imports Complex_Main "HOL-Library.Multiset"
begin

section \<open>Grid functions (lib/assembly/grid\_function.cpp)\<close>

text \<open>
  A column vector (\<^verbatim>\<open>arma::Col<ResultType>\<close>) is a list of scalars; \<^verbatim>\<open>n_rows\<close> is its
  length. The scalar type stays a type variable: nothing below depends on how the
  numbers are represented.
\<close>

type_synonym 'a col = "'a list"

text \<open>
  What the grid function reads from a \<^verbatim>\<open>Space\<close>: the grid it is defined on (the address
  of the grid object, compared with \<^verbatim>\<open>&space->grid() != &dualSpace->grid()\<close>), whether
  its degrees of freedom are assigned, and its number of global degrees of freedom.
\<close>

record space =
  grid :: nat
  dofsAssigned :: bool
  globalDofCount :: nat

text \<open>
  The ways a call can end other than by returning: the two exception classes thrown in
  the file, each with its message, a failed \<^verbatim>\<open>BOOST_ASSERT_MSG\<close> or \<^verbatim>\<open>assert\<close>, and the
  dereference of an empty shared pointer.
\<close>

datatype failure =
    invalid_argument string
  | runtime_error string
  | assertion_failure string
  | null_dereference

text \<open>
  The members of \<^verbatim>\<open>GridFunction\<close>. A \<^verbatim>\<open>shared_ptr\<close> is an option: \<open>None\<close> is the empty
  pointer. The default constructor leaves all five empty.
\<close>

record ('ctx, 'a) GridFunction =
  m_context :: "'ctx option"
  m_space :: "space option"
  m_dualSpace :: "space option"
  m_coefficients :: "'a col option"
  m_projections :: "'a col option"

definition GridFunction0 :: "('ctx, 'a) GridFunction" where
  "GridFunction0 =
     \<lparr>m_context = None, m_space = None, m_dualSpace = None,
      m_coefficients = None, m_projections = None\<rparr>"

text \<open>
  A member function that changes the object returns the object after the call together
  with its result: \<open>Inl\<close> the failure, \<open>Inr\<close> the returned value. The object is
  returned in the failing case too, as it stands when the exception leaves the function.
\<close>

definition setCoefficients ::
  "('ctx, 'a) GridFunction \<Rightarrow> 'a col \<Rightarrow> ('ctx, 'a) GridFunction \<times> (failure + unit)" where
  "setCoefficients g coeffs =
     (case m_space g of
        None \<Rightarrow>
          (g, Inl (assertion_failure
             ''GridFunction::setCoefficients() must not be called on an uninitialised GridFunction object''))
      | Some sp \<Rightarrow>
          if length coeffs \<noteq> globalDofCount sp then
            (g, Inl (invalid_argument
               ''GridFunction::setCoefficients(): dimension of the provided vector does not match the number of global DOFs in the primal space''))
          else
            (g\<lparr>m_coefficients := Some coeffs, m_projections := None\<rparr>, Inr ()))"

definition setProjections ::
  "('ctx, 'a) GridFunction \<Rightarrow> 'a col \<Rightarrow> ('ctx, 'a) GridFunction \<times> (failure + unit)" where
  "setProjections g projects =
     (case m_dualSpace g of
        None \<Rightarrow>
          (g, Inl (assertion_failure
             ''GridFunction::setProjections() must not be called on an uninitialised GridFunction object''))
      | Some dsp \<Rightarrow>
          if length projects \<noteq> globalDofCount dsp then
            (g, Inl (invalid_argument
               ''GridFunction::setProjections(): dimension of the provided vector does not match the number of global DOFs in the dual space''))
          else
            (g\<lparr>m_projections := Some projects, m_coefficients := None\<rparr>, Inr ()))"

definition is_invalid_argument :: "failure + 'r \<Rightarrow> bool" where
  "is_invalid_argument r = (case r of Inl (invalid_argument _) \<Rightarrow> True | _ \<Rightarrow> False)"

subsection \<open>Construction from data\<close>

datatype DataType = COEFFICIENTS | PROJECTIONS | OTHER_DATA_TYPE

text \<open>The checks shared by the constructors, in the order of the source.\<close>

definition checkArguments ::
  "'ctx option \<Rightarrow> space option \<Rightarrow> space option \<Rightarrow> failure + (space \<times> space)" where
  "checkArguments context sp dsp =
     (case context of
        None \<Rightarrow> Inl (invalid_argument ''GridFunction::GridFunction(): context must not be null'')
      | Some _ \<Rightarrow>
     (case sp of
        None \<Rightarrow> Inl (invalid_argument ''GridFunction::GridFunction(): space must not be null'')
      | Some s \<Rightarrow>
     (case dsp of
        None \<Rightarrow> Inl (invalid_argument ''GridFunction::GridFunction(): dualSpace must not be null'')
      | Some d \<Rightarrow>
          if grid s \<noteq> grid d then
            Inl (invalid_argument
              ''GridFunction::GridFunction(): space and dualSpace must be defined on the same grid'')
          else if \<not> dofsAssigned s \<or> \<not> dofsAssigned d then
            Inl (runtime_error
              ''GridFunction::GridFunction(): degrees of freedom of the provided spaces must be assigned beforehand'')
          else Inr (s, d))))"

definition GridFunction_data ::
  "'ctx option \<Rightarrow> space option \<Rightarrow> space option \<Rightarrow> 'a col \<Rightarrow> DataType \<Rightarrow>
   failure + ('ctx, 'a) GridFunction" where
  "GridFunction_data context sp dsp data dataType =
     (case checkArguments context sp dsp of
        Inl e \<Rightarrow> Inl e
      | Inr (s, d) \<Rightarrow>
          if dataType = COEFFICIENTS then
            if length data \<noteq> globalDofCount s then
              Inl (invalid_argument
                ''GridFunction::GridFunction(): the coefficients vector has incorrect length'')
            else Inr \<lparr>m_context = context, m_space = sp, m_dualSpace = dsp,
                      m_coefficients = Some data, m_projections = None\<rparr>
          else if dataType = PROJECTIONS then
            if length data \<noteq> globalDofCount d then
              Inl (invalid_argument
                ''GridFunction::GridFunction(): the projections vector has incorrect length'')
            else Inr \<lparr>m_context = context, m_space = sp, m_dualSpace = dsp,
                      m_coefficients = None, m_projections = Some data\<rparr>
          else Inl (invalid_argument ''GridFunction::GridFunction(): invalid data type''))"

definition GridFunction_both ::
  "'ctx option \<Rightarrow> space option \<Rightarrow> space option \<Rightarrow> 'a col \<Rightarrow> 'a col \<Rightarrow>
   failure + ('ctx, 'a) GridFunction" where
  "GridFunction_both context sp dsp coeffs projs =
     (case checkArguments context sp dsp of
        Inl e \<Rightarrow> Inl e
      | Inr (s, d) \<Rightarrow>
          if length coeffs \<noteq> globalDofCount s then
            Inl (invalid_argument
              ''GridFunction::GridFunction(): the coefficients vector has incorrect length'')
          else if length projs \<noteq> globalDofCount d then
            Inl (invalid_argument
              ''GridFunction::GridFunction(): the projections vector has incorrect length'')
          else Inr \<lparr>m_context = context, m_space = sp, m_dualSpace = dsp,
                    m_coefficients = Some coeffs, m_projections = Some projs\<rparr>)"

subsection \<open>The lazily computed vectors\<close>

text \<open>
  \<^verbatim>\<open>coefficients()\<close> and \<^verbatim>\<open>projections()\<close> fill the missing vector from the other one by
  applying the weak form of the identity operator of the two spaces (the mass matrix), or
  of its pseudoinverse. Both operators are assembled outside this file; they enter as
  parameters giving entry \<open>i\<close> of the product. The output vector is allocated by the
  caller, with the number of global degrees of freedom of the space as its length.
  An exception thrown by code outside this file is \<open>external_failure\<close>;
  \<^verbatim>\<open>identityOperator\<close>, which is called first, is taken to throw when it is handed an empty
  context or space pointer.
\<close>

record 'a massMatrix =
  idApply :: "space \<Rightarrow> space \<Rightarrow> 'a col \<Rightarrow> nat \<Rightarrow> 'a"
  pinvIdApply :: "space \<Rightarrow> space \<Rightarrow> 'a col \<Rightarrow> nat \<Rightarrow> 'a"

definition external_failure :: failure where
  "external_failure = runtime_error ''exception thrown by a collaborator''"

definition coefficients ::
  "'a massMatrix \<Rightarrow> ('ctx, 'a) GridFunction \<Rightarrow> ('ctx, 'a) GridFunction \<times> (failure + 'a col)" where
  "coefficients mm g =
     (case m_space g of
        None \<Rightarrow>
          (g, Inl (assertion_failure
             ''GridFunction::coefficients() must not be called on an uninitialised GridFunction object''))
      | Some sp \<Rightarrow>
     (case m_coefficients g of
        Some c \<Rightarrow> (g, Inr c)
      | None \<Rightarrow>
     (case m_projections g of
        None \<Rightarrow> (g, Inl (assertion_failure ''m_projections''))
      | Some p \<Rightarrow>
     (case m_context g of
        None \<Rightarrow> (g, Inl external_failure)
      | Some _ \<Rightarrow>
     (case m_dualSpace g of
        None \<Rightarrow> (g, Inl external_failure)
      | Some dsp \<Rightarrow>
          let newCoefficients = map (pinvIdApply mm sp dsp p) [0..<globalDofCount sp]
          in (g\<lparr>m_coefficients := Some newCoefficients\<rparr>, Inr newCoefficients))))))"

definition projections ::
  "'a massMatrix \<Rightarrow> ('ctx, 'a) GridFunction \<Rightarrow> ('ctx, 'a) GridFunction \<times> (failure + 'a col)" where
  "projections mm g =
     (case m_space g of
        None \<Rightarrow>
          (g, Inl (assertion_failure
             ''GridFunction::projections() must not be called on an uninitialised GridFunction object''))
      | Some sp \<Rightarrow>
     (case m_projections g of
        Some p \<Rightarrow> (g, Inr p)
      | None \<Rightarrow>
     (case m_context g of
        None \<Rightarrow> (g, Inl external_failure)
      | Some _ \<Rightarrow>
     (case m_dualSpace g of
        None \<Rightarrow> (g, Inl external_failure)
      | Some dsp \<Rightarrow>
     (case m_coefficients g of
        None \<Rightarrow> (g, Inl null_dereference)
      | Some c \<Rightarrow>
          let newProjections = map (idApply mm sp dsp c) [0..<globalDofCount dsp]
          in (g\<lparr>m_projections := Some newProjections\<rparr>, Inr newProjections))))))"

subsection \<open>Multiplication and division by a scalar\<close>

text \<open>
  The scalar has its own type \<^verbatim>\<open>ScalarType\<close>; \<^verbatim>\<open>static_cast<ResultType>\<close> is the
  parameter \<open>cast\<close>. The argument is a const reference, and its two cached vectors are
  \<^verbatim>\<open>mutable\<close>: the operators return the argument as the call leaves it, next to the new grid
  function. C++ does not fix the order in which the constructor's arguments are evaluated;
  the two calls that matter are taken in the order they are written. The outcome depends on
  the order only when both vectors are missing, where either order fails.
\<close>

definition operator_times ::
  "'a::times massMatrix \<Rightarrow> ('s \<Rightarrow> 'a) \<Rightarrow> ('ctx, 'a) GridFunction \<Rightarrow> 's \<Rightarrow>
   ('ctx, 'a) GridFunction \<times> (failure + ('ctx, 'a) GridFunction)" where
  "operator_times mm cast g1 scalar =
     (case coefficients mm g1 of
        (ga, Inl e) \<Rightarrow> (ga, Inl e)
      | (ga, Inr c) \<Rightarrow>
     (case projections mm ga of
        (gb, Inl e) \<Rightarrow> (gb, Inl e)
      | (gb, Inr p) \<Rightarrow>
          (gb, GridFunction_both (m_context gb) (m_space gb) (m_dualSpace gb)
                 (map (\<lambda>x. cast scalar * x) c) (map (\<lambda>x. cast scalar * x) p))))"

definition scalar_times ::
  "'a::times massMatrix \<Rightarrow> ('s \<Rightarrow> 'a) \<Rightarrow> 's \<Rightarrow> ('ctx, 'a) GridFunction \<Rightarrow>
   ('ctx, 'a) GridFunction \<times> (failure + ('ctx, 'a) GridFunction)" where
  "scalar_times mm cast scalar g2 = operator_times mm cast g2 scalar"

definition divide_by_zero :: failure where
  "divide_by_zero = runtime_error ''GridFunction::operator/(): Divide by zero''"

definition operator_div ::
  "'a::times massMatrix \<Rightarrow> ('s::{zero,one,inverse} \<Rightarrow> 'a) \<Rightarrow> ('ctx, 'a) GridFunction \<Rightarrow> 's \<Rightarrow>
   ('ctx, 'a) GridFunction \<times> (failure + ('ctx, 'a) GridFunction)" where
  "operator_div mm cast g1 scalar =
     (if scalar = 0 then (g1, Inl divide_by_zero)
      else scalar_times mm cast (1 / scalar) g1)"

text \<open>
  What every constructor establishes and both setters keep: context and spaces are there,
  the spaces share a grid and have their degrees of freedom assigned, a stored vector has
  the length of its space, and at least one of the two vectors is stored.
\<close>

definition initialised :: "('ctx, 'a) GridFunction \<Rightarrow> bool" where
  "initialised g =
     (case (m_context g, m_space g, m_dualSpace g) of
        (Some _, Some sp, Some dsp) \<Rightarrow>
          grid sp = grid dsp \<and> dofsAssigned sp \<and> dofsAssigned dsp \<and>
          (case m_coefficients g of None \<Rightarrow> True | Some c \<Rightarrow> length c = globalDofCount sp) \<and>
          (case m_projections g of None \<Rightarrow> True | Some p \<Rightarrow> length p = globalDofCount dsp) \<and>
          (m_coefficients g \<noteq> None \<or> m_projections g \<noteq> None)
      | _ \<Rightarrow> False)"

section \<open>Discrete operators\<close>

text \<open>
  A dense array (\<^verbatim>\<open>asMatrix()\<close>, the materialisation of a discrete operator) is the list
  of its rows.
\<close>

type_synonym 'a mat = "'a list list"

definition mat_add :: "'a::plus mat \<Rightarrow> 'a mat \<Rightarrow> 'a mat" where
  "mat_add A B = map2 (map2 (+)) A B"

definition mat_scale :: "'a::times \<Rightarrow> 'a mat \<Rightarrow> 'a mat" where
  "mat_scale alpha A = map (map (\<lambda>x. alpha * x)) A"

definition zero_mat :: "nat \<Rightarrow> nat \<Rightarrow> 'a::zero mat" where
  "zero_mat r c = replicate r (replicate c 0)"

definition has_shape :: "nat \<Rightarrow> nat \<Rightarrow> 'a mat \<Rightarrow> bool" where
  "has_shape r c A = (length A = r \<and> list_all (\<lambda>row. length row = c) A)"

text \<open>
  Modelled from the spec: the discrete operators are defined in files that are not among
  the source files (\<^verbatim>\<open>discrete_boundary_operator\<close>). Section 4.2 of the specification
  gives the variants: Dense, backed by an explicit array; Sparse, backed by a sparse
  structure (here the shape and the stored entries by position); Hierarchical, built by an
  external compression routine (here an opaque value of type \<open>'h\<close>, expanded by a function
  that is a parameter of \<open>materialize\<close>); Composite-Sum, an ordered list of operators.
\<close>

datatype ('a, 'h) DiscreteOperator =
    Dense "'a mat"
  | Sparse nat nat "((nat \<times> nat) \<times> 'a) list"
  | Hierarchical 'h
  | CompositeSum "('a, 'h) DiscreteOperator list"

text \<open>
  Modelled from the spec: \<^verbatim>\<open>materialize()\<close> returns the dense array; for Dense it is direct,
  Sparse expands to dense, Hierarchical expands, and Composite-Sum sums each operand's
  dense form (section 4.2).
\<close>

fun materialize :: "('h \<Rightarrow> 'a mat) \<Rightarrow> ('a::{zero,plus}, 'h) DiscreteOperator \<Rightarrow> 'a mat" where
  "materialize expand (Dense m) = m"
| "materialize expand (Sparse r c es) =
     map (\<lambda>i. map (\<lambda>j. case map_of es (i, j) of None \<Rightarrow> 0 | Some v \<Rightarrow> v) [0..<c]) [0..<r]"
| "materialize expand (Hierarchical h) = expand h"
| "materialize expand (CompositeSum ops) =
     (case map (materialize expand) ops of [] \<Rightarrow> [] | m # ms \<Rightarrow> foldl mat_add m ms)"

text \<open>
  Modelled from the spec: the sum of two discrete operators, which the discretisation of a
  Sum node returns, is a Composite-Sum of the two (sections 4.1 and 4.2). In the Python
  file it is the \<^verbatim>\<open>+\<close> of two discrete operators.
\<close>

definition discrete_add ::
  "('a, 'h) DiscreteOperator \<Rightarrow> ('a, 'h) DiscreteOperator \<Rightarrow> ('a, 'h) DiscreteOperator" where
  "discrete_add a b = CompositeSum [a, b]"

text \<open>
  Modelled from the spec: the discretisation of a Scaled node multiplies the entries of
  the operand's discretisation by the scalar (section 4.1). In the Python file it is the
  \<^verbatim>\<open>*\<close> of a scalar and a discrete operator.
\<close>

definition discrete_scale ::
  "('h \<Rightarrow> 'a mat) \<Rightarrow> 'a::{zero,plus,times} \<Rightarrow> ('a, 'h) DiscreteOperator \<Rightarrow>
   ('a, 'h) DiscreteOperator" where
  "discrete_scale expand alpha a = Dense (mat_scale alpha (materialize expand a))"

section \<open>Boundary operators (python/bempp/assembly/boundary\_operator.mako.pyx)\<close>

text \<open>
  The exceptions of the Python layer: the \<^verbatim>\<open>ValueError\<close> and \<^verbatim>\<open>AttributeError\<close> raised
  by the classes of the file, and any exception coming out of the wrapped C++ object.
\<close>

datatype exn = ValueError string | AttributeError string | WrappedError string

text \<open>
  \<^verbatim>\<open>impl_\<close>, the wrapped C++ object of a \<^verbatim>\<open>GeneralBoundaryOperator\<close>, is declared outside
  the source files. The file calls \<^verbatim>\<open>valid_domain()\<close>, \<^verbatim>\<open>valid_range()\<close>,
  \<^verbatim>\<open>valid_dual_to_range()\<close>, the three getters \<^verbatim>\<open>domain()\<close>, \<^verbatim>\<open>range()\<close>,
  \<^verbatim>\<open>dual_to_range()\<close>, \<^verbatim>\<open>label()\<close> and the weak form of the variant; these are the fields.
  A getter and the weak form may fail. The three properties are generated by one template
  loop over the variable names.
\<close>

datatype variable = var_domain | var_range | var_dual_to_range

record ('a, 'h, 'sp) BoundaryOperatorVariants =
  valid :: "variable \<Rightarrow> bool"
  space_of :: "variable \<Rightarrow> exn + 'sp"
  impl_label :: string
  variant_weak_form :: "exn + ('a, 'h) DiscreteOperator"

text \<open>
  The three node classes with their fields; \<^verbatim>\<open>SparseBoundaryOperator\<close> and
  \<^verbatim>\<open>DenseBoundaryOperator\<close> are subclasses of \<^verbatim>\<open>GeneralBoundaryOperator\<close> that inherit its
  label and its three space properties. A label is a Python string; the byte string
  kept in \<^verbatim>\<open>_label\<close> is its UTF-8 encoding, and encoding followed by decoding gives the
  string back. The type tags of the Scaled and Sum nodes are computed by
  \<^verbatim>\<open>combined_type\<close>, from outside the source files; no function below reads them.
\<close>

datatype ('a, 'h, 'sp) BoundaryOperator =
    GeneralBoundaryOperator
      (basis_type: "string option") (result_type: "string option")
      (impl: "('a, 'h, 'sp) BoundaryOperatorVariants")
  | ScaledBoundaryOperator
      (scaled_op: "('a, 'h, 'sp) BoundaryOperator") (scaled_label: string) (scaled_alpha: 'a)
  | SumBoundaryOperator
      (sum_op1: "('a, 'h, 'sp) BoundaryOperator") (sum_op2: "('a, 'h, 'sp) BoundaryOperator")
      (sum_label: string)

fun label :: "('a, 'h, 'sp) BoundaryOperator \<Rightarrow> string" where
  "label (GeneralBoundaryOperator bt rt i) = impl_label i"
| "label (ScaledBoundaryOperator op l alpha) = l"
| "label (SumBoundaryOperator op1 op2 l) = l"

text \<open>
  \<^verbatim>\<open>_ScaledBoundaryOperator.__init__\<close> assigns \<^verbatim>\<open>_alpha\<close>, the two type tags and \<^verbatim>\<open>_op\<close>;
  the field \<^verbatim>\<open>_label\<close>, a C++ string, keeps its initial value, the empty string.
  \<^verbatim>\<open>_SumBoundaryOperator.__init__\<close> assigns the label built from the two operands.
\<close>

definition Scaled_init ::
  "('a::{one,times}, 'h, 'sp) BoundaryOperator \<Rightarrow> 'a \<Rightarrow> ('a, 'h, 'sp) BoundaryOperator" where
  "Scaled_init op alpha = ScaledBoundaryOperator op [] (1 * alpha)"

definition Sum_init ::
  "('a, 'h, 'sp) BoundaryOperator \<Rightarrow> ('a, 'h, 'sp) BoundaryOperator \<Rightarrow>
   ('a, 'h, 'sp) BoundaryOperator" where
  "Sum_init op1 op2 =
     SumBoundaryOperator op1 op2 (''('' @ label op1 @ ''+'' @ label op2 @ '')'')"

definition op_add ::
  "('a, 'h, 'sp) BoundaryOperator \<Rightarrow> ('a, 'h, 'sp) BoundaryOperator \<Rightarrow>
   ('a, 'h, 'sp) BoundaryOperator" where
  "op_add self other = Sum_init self other"

definition op_neg ::
  "('a::{one,times,uminus}, 'h, 'sp) BoundaryOperator \<Rightarrow> ('a, 'h, 'sp) BoundaryOperator" where
  "op_neg self = Scaled_init self (- 1)"

definition op_sub ::
  "('a::{one,times,uminus}, 'h, 'sp) BoundaryOperator \<Rightarrow> ('a, 'h, 'sp) BoundaryOperator \<Rightarrow>
   ('a, 'h, 'sp) BoundaryOperator" where
  "op_sub self other = op_add self (op_neg other)"

text \<open>
  The properties \<^verbatim>\<open>domain\<close>, \<^verbatim>\<open>range\<close> and \<^verbatim>\<open>dual_to_range\<close> exist in
  \<^verbatim>\<open>GeneralBoundaryOperator\<close> only; on the other two classes the attribute lookup fails.
  The result \<open>None\<close> is Python's \<^verbatim>\<open>None\<close>.
\<close>

fun space_property ::
  "variable \<Rightarrow> ('a, 'h, 'sp) BoundaryOperator \<Rightarrow> exn + 'sp option" where
  "space_property v (GeneralBoundaryOperator bt rt i) =
     (if \<not> valid i v then Inr None
      else case space_of i v of Inl e \<Rightarrow> Inl e | Inr s \<Rightarrow> Inr (Some s))"
| "space_property v (ScaledBoundaryOperator op l alpha) =
     Inl (AttributeError ''_ScaledBoundaryOperator'')"
| "space_property v (SumBoundaryOperator op1 op2 l) =
     Inl (AttributeError ''_SumBoundaryOperator'')"

text \<open>
  \<^verbatim>\<open>weak_form\<close>. The template generates one test per pair of a basis type and a result
  type compatible with it; the table of these pairs is the parameter \<open>compatible\<close>.
\<close>

fun weak_form ::
  "(string \<times> string) list \<Rightarrow> ('h \<Rightarrow> 'a mat) \<Rightarrow>
   ('a::{zero,plus,times}, 'h, 'sp) BoundaryOperator \<Rightarrow> exn + ('a, 'h) DiscreteOperator" where
  "weak_form compatible expand (GeneralBoundaryOperator bt rt i) =
     (if list_ex (\<lambda>(b, r). bt = Some b \<and> rt = Some r) compatible then variant_weak_form i
      else Inl (ValueError ''Incompatible basis and result types''))"
| "weak_form compatible expand (ScaledBoundaryOperator op l alpha) =
     (case weak_form compatible expand op of
        Inl e \<Rightarrow> Inl e
      | Inr w \<Rightarrow> Inr (discrete_scale expand alpha w))"
| "weak_form compatible expand (SumBoundaryOperator op1 op2 l) =
     (case weak_form compatible expand op1 of
        Inl e \<Rightarrow> Inl e
      | Inr w1 \<Rightarrow>
     (case weak_form compatible expand op2 of
        Inl e \<Rightarrow> Inl e
      | Inr w2 \<Rightarrow> Inr (discrete_add w1 w2)))"

section \<open>Blocked operators\<close>

text \<open>
  Modelled from the spec: \<^verbatim>\<open>BlockedOperatorStructure\<close> and \<^verbatim>\<open>BlockedBoundaryOperator\<close> are
  defined in files that are not among the source files; their unit tests
  (tests/unit/assembly/test\_blocked\_boundary\_operator.cpp) are. The definitions of this
  section follow sections 3, 4.3 and 7 of the specification. These are the error kinds of
  section 7 that the blocked operator raises; a failure of the discretisation of a block
  is handed on.
\<close>

datatype blocked_error =
    InconsistentSpaces | MissingSpace | InvalidStructure | DiscretizationFailed exn

text \<open>
  Modelled from the spec: what the blocked operator consumes of a node of the symbolic
  tree, whatever its kind: its domain, range and dual-to-range space, and its
  discretisation in the given context (section 6).
\<close>

record ('n, 'a, 'h) nodeInterface =
  domainOf :: "'n \<Rightarrow> space"
  rangeOf :: "'n \<Rightarrow> space"
  dualToRangeOf :: "'n \<Rightarrow> space"
  discretize :: "'n \<Rightarrow> exn + ('a, 'h) DiscreteOperator"

text \<open>
  Modelled from the spec: a row count, a column count, a table whose entries are either
  empty or a node, and for each block row the (range, dual-to-range) pair of spaces, for
  each block column the domain space (section 3). A row or column that was never given a
  space has \<open>None\<close> in its list.
\<close>

record 'n BlockedOperatorStructure =
  rowCount :: nat
  columnCount :: nat
  block :: "nat \<times> nat \<Rightarrow> 'n option"
  rowSpaces :: "(space \<times> space) option list"
  columnSpaces :: "space option list"

text \<open>Modelled from the spec: the structure starts empty, with no rows and no columns.\<close>

definition emptyStructure :: "'n BlockedOperatorStructure" where
  "emptyStructure =
     \<lparr>rowCount = 0, columnCount = 0, block = (\<lambda>_. None), rowSpaces = [], columnSpaces = []\<rparr>"

text \<open>
  Modelled from the spec: \<^verbatim>\<open>setBlock(i, j, node)\<close> registers the node at \<open>(i, j)\<close>, infers
  the spaces of row \<open>i\<close> and column \<open>j\<close> from the node where they are not declared yet,
  and fails with InconsistentSpaces where the declared ones differ from the node's
  (section 4.3). The structure grows to hold the position, as in the unit tests, which
  set blocks of a default-constructed structure.
\<close>

definition setBlock ::
  "('n, 'a, 'h) nodeInterface \<Rightarrow> 'n BlockedOperatorStructure \<Rightarrow> nat \<Rightarrow> nat \<Rightarrow> 'n \<Rightarrow>
   blocked_error + 'n BlockedOperatorStructure" where
  "setBlock nd S i j node =
     (let R = max (rowCount S) (Suc i);
          C = max (columnCount S) (Suc j);
          rs = rowSpaces S @ replicate (R - length (rowSpaces S)) None;
          cs = columnSpaces S @ replicate (C - length (columnSpaces S)) None;
          pair = (rangeOf nd node, dualToRangeOf nd node);
          dom = domainOf nd node
      in if (case rs ! i of None \<Rightarrow> False | Some p \<Rightarrow> p \<noteq> pair) \<or>
            (case cs ! j of None \<Rightarrow> False | Some d \<Rightarrow> d \<noteq> dom)
         then Inl InconsistentSpaces
         else Inr \<lparr>rowCount = R, columnCount = C,
                   block = (block S)((i, j) := Some node),
                   rowSpaces = rs[i := Some pair],
                   columnSpaces = cs[j := Some dom]\<rparr>)"

text \<open>Modelled from the spec: blocks set one after the other, stopping at the first failure.\<close>

fun setBlocks ::
  "('n, 'a, 'h) nodeInterface \<Rightarrow> 'n BlockedOperatorStructure \<Rightarrow> (nat \<times> nat \<times> 'n) list \<Rightarrow>
   blocked_error + 'n BlockedOperatorStructure" where
  "setBlocks nd S [] = Inr S"
| "setBlocks nd S ((i, j, node) # zs) =
     (case setBlock nd S i j node of Inl e \<Rightarrow> Inl e | Inr S' \<Rightarrow> setBlocks nd S' zs)"

text \<open>
  What holds of every structure built from the empty one by \<^verbatim>\<open>setBlock\<close>: the two lists
  of spaces are as long as the table is high and wide, the last row and the last column
  hold a block, and every block lies inside the table, in a row and a column that carry
  the spaces of its node.
\<close>

definition wellBuilt :: "('n, 'a, 'h) nodeInterface \<Rightarrow> 'n BlockedOperatorStructure \<Rightarrow> bool" where
  "wellBuilt nd S \<longleftrightarrow>
     length (rowSpaces S) = rowCount S \<and> length (columnSpaces S) = columnCount S \<and>
     (rowCount S = 0 \<or> (\<exists>j. block S (rowCount S - 1, j) \<noteq> None)) \<and>
     (columnCount S = 0 \<or> (\<exists>i. block S (i, columnCount S - 1) \<noteq> None)) \<and>
     (\<forall>i j n. block S (i, j) = Some n \<longrightarrow>
        i < rowCount S \<and> j < columnCount S \<and>
        rowSpaces S ! i = Some (rangeOf nd n, dualToRangeOf nd n) \<and>
        columnSpaces S ! j = Some (domainOf nd n))"

text \<open>
  Modelled from the spec: the declared (range, dual-to-range) pair of a block row, if it
  has one.
\<close>

definition rowSpace :: "'n BlockedOperatorStructure \<Rightarrow> nat \<Rightarrow> (space \<times> space) option" where
  "rowSpace S i = (if i < length (rowSpaces S) then rowSpaces S ! i else None)"

text \<open>Modelled from the spec: the declared domain space of a block column, if it has one.\<close>

definition columnSpace :: "'n BlockedOperatorStructure \<Rightarrow> nat \<Rightarrow> space option" where
  "columnSpace S j = (if j < length (columnSpaces S) then columnSpaces S ! j else None)"

text \<open>
  Modelled from the spec: the global offsets are the prefix sums of the numbers of degrees
  of freedom (section 4.3, step 2).
\<close>

definition offsets :: "nat list \<Rightarrow> nat list" where
  "offsets ns = map (\<lambda>i. sum_list (take i ns)) [0..<length ns]"

text \<open>
  Modelled from the spec: a block placed at \<open>(r0, c0)\<close> in an array of \<open>nr\<close> rows and
  \<open>nc\<close> columns that is zero elsewhere (section 4.3, step 3).
\<close>

definition embed :: "nat \<Rightarrow> nat \<Rightarrow> nat \<Rightarrow> nat \<Rightarrow> 'a::zero mat \<Rightarrow> 'a mat" where
  "embed nr nc r0 c0 B =
     map (\<lambda>r. map (\<lambda>c.
            if r0 \<le> r \<and> r - r0 < length B \<and> c0 \<le> c \<and> c - c0 < length (B ! (r - r0))
            then B ! (r - r0) ! (c - c0) else 0) [0..<nc]) [0..<nr]"

text \<open>
  Modelled from the spec: every non-empty block is discretised by its node (section 4.3,
  step 1); a failed discretisation fails the whole call, which then returns no operator
  (section 7). The specification leaves the order open; the positions are taken in the
  order of the list.
\<close>

fun discretizeBlocks ::
  "('n \<Rightarrow> exn + 'd) \<Rightarrow> (nat \<times> nat \<Rightarrow> 'n option) \<Rightarrow> (nat \<times> nat) list \<Rightarrow>
   exn + ((nat \<times> nat) \<times> 'd) list" where
  "discretizeBlocks disc blk [] = Inr []"
| "discretizeBlocks disc blk (p # ps) =
     (case blk p of
        None \<Rightarrow> discretizeBlocks disc blk ps
      | Some node \<Rightarrow>
          (case disc node of
             Inl e \<Rightarrow> Inl e
           | Inr d \<Rightarrow>
               (case discretizeBlocks disc blk ps of
                  Inl e \<Rightarrow> Inl e
                | Inr ds \<Rightarrow> Inr ((p, d) # ds))))"

text \<open>
  Modelled from the spec: a discretised block contributes its entries at the offsets of
  its row and column (section 4.3, step 3).
\<close>

definition placeBlock ::
  "nat \<Rightarrow> nat \<Rightarrow> nat list \<Rightarrow> nat list \<Rightarrow> ('h \<Rightarrow> 'a mat) \<Rightarrow>
   'a::{zero,plus} mat \<Rightarrow> (nat \<times> nat) \<times> ('a, 'h) DiscreteOperator \<Rightarrow> 'a mat" where
  "placeBlock nr nc roff coff expand M b =
     (case b of ((i, j), d) \<Rightarrow>
        mat_add M (embed nr nc (roff ! i) (coff ! j) (materialize expand d)))"

text \<open>
  Modelled from the spec: the global operator is built as a block matrix from the
  contributions of the discretised blocks; an empty entry contributes nothing (section
  4.3, step 3).
\<close>

definition blockMatrix ::
  "nat \<Rightarrow> nat \<Rightarrow> nat list \<Rightarrow> nat list \<Rightarrow> ('h \<Rightarrow> 'a mat) \<Rightarrow>
   ((nat \<times> nat) \<times> ('a::{zero,plus}, 'h) DiscreteOperator) list \<Rightarrow> 'a mat" where
  "blockMatrix nr nc roff coff expand ds =
     foldl (placeBlock nr nc roff coff expand) (zero_mat nr nc) ds"

text \<open>
  Modelled from the spec: \<^verbatim>\<open>weakForm()\<close> (section 4.3). A structure without rows or
  without columns is an InvalidStructure, a row or column without a declared space a
  MissingSpace. The row sizes are the numbers of degrees of freedom of the dual-to-range
  spaces, the column sizes those of the domain spaces. Whether the global operator is
  realised as a dense, sparse or hierarchical one is a matter of representation, and the
  merging of compressed blocks belongs to the external compression; the model returns the
  operator by the array that every realisation materialises to.
\<close>

definition weakForm ::
  "('n, 'a::{zero,plus}, 'h) nodeInterface \<Rightarrow> ('h \<Rightarrow> 'a mat) \<Rightarrow> 'n BlockedOperatorStructure \<Rightarrow>
   blocked_error + ('a, 'h) DiscreteOperator" where
  "weakForm nd expand S =
     (if rowCount S = 0 \<or> columnCount S = 0 then Inl InvalidStructure
      else
        case (those (map (rowSpace S) [0..<rowCount S]),
              those (map (columnSpace S) [0..<columnCount S])) of
          (Some rs, Some cs) \<Rightarrow>
            (case discretizeBlocks (discretize nd) (block S)
                    (List.product [0..<rowCount S] [0..<columnCount S]) of
               Inl e \<Rightarrow> Inl (DiscretizationFailed e)
             | Inr ds \<Rightarrow>
                 let rowDofs = map (\<lambda>(rg, dl). globalDofCount dl) rs;
                     colDofs = map globalDofCount cs
                 in Inr (Dense (blockMatrix (sum_list rowDofs) (sum_list colDofs)
                                  (offsets rowDofs) (offsets colDofs) expand ds)))
        | _ \<Rightarrow> Inl MissingSpace)"


text \<open>Nodes, spaces and arrays for the concrete structures of the unit tests.\<close>

definition exampleInterface ::
  "((space \<times> space \<times> space) \<times> int mat, int, unit) nodeInterface" where
  "exampleInterface =
     \<lparr>domainOf = (\<lambda>((d, r, dl), m). d), rangeOf = (\<lambda>((d, r, dl), m). r),
      dualToRangeOf = (\<lambda>((d, r, dl), m). dl), discretize = (\<lambda>((d, r, dl), m). Inr (Dense m))\<rparr>"

definition exampleSpace :: "nat \<Rightarrow> nat \<Rightarrow> space" where
  "exampleSpace g n = \<lparr>grid = g, dofsAssigned = True, globalDofCount = n\<rparr>"

definition exampleMatrix :: "nat \<Rightarrow> nat \<Rightarrow> int mat" where
  "exampleMatrix r c = map (\<lambda>i. map (\<lambda>j. int (i * c + j) + 1) [0..<c]) [0..<r]"



definition exampleWithEmptyRow ::
  "((space \<times> space \<times> space) \<times> int mat) BlockedOperatorStructure" where
  "exampleWithEmptyRow =
     \<lparr>rowCount = 2, columnCount = 2,
      block = (\<lambda>p.
        if p = (0, 0) then Some ((exampleSpace 0 2, exampleSpace 0 2, exampleSpace 0 1), [[8, 9]])
        else None),
      rowSpaces = [Some (exampleSpace 0 2, exampleSpace 0 1), Some (exampleSpace 2 1, exampleSpace 2 2)],
      columnSpaces = [Some (exampleSpace 0 2), Some (exampleSpace 1 1)]\<rparr>"














section \<open>Verified properties\<close>

subsection \<open>The setters\<close>

lemma setCoefficients_returns:
  "snd (setCoefficients g coeffs) = Inr () \<longleftrightarrow>
     (\<exists>sp. m_space g = Some sp \<and> length coeffs = globalDofCount sp)"
  by (auto simp: setCoefficients_def split: option.splits)

lemma setProjections_returns:
  "snd (setProjections g projects) = Inr () \<longleftrightarrow>
     (\<exists>dsp. m_dualSpace g = Some dsp \<and> length projects = globalDofCount dsp)"
  by (auto simp: setProjections_def split: option.splits)

text \<open>
  C7. A call of \<^verbatim>\<open>setCoefficients\<close> that returns has stored the given vector as the
  coefficients and emptied the projections; a call of \<^verbatim>\<open>setProjections\<close> that returns has
  stored the given vector as the projections and emptied the coefficients. In both cases
  every other member (context, space, dual space) is as before: the object after the call
  is the object before it with exactly these two members replaced.
\<close>

theorem setters_replace_and_invalidate:
  "(setCoefficients g v = (g', Inr ()) \<longrightarrow>
      m_coefficients g' = Some v \<and> m_projections g' = None \<and>
      m_context g' = m_context g \<and> m_space g' = m_space g \<and> m_dualSpace g' = m_dualSpace g \<and>
      g' = g\<lparr>m_coefficients := Some v, m_projections := None\<rparr>) \<and>
   (setProjections g w = (g'', Inr ()) \<longrightarrow>
      m_projections g'' = Some w \<and> m_coefficients g'' = None \<and>
      m_context g'' = m_context g \<and> m_space g'' = m_space g \<and> m_dualSpace g'' = m_dualSpace g \<and>
      g'' = g\<lparr>m_projections := Some w, m_coefficients := None\<rparr>)"
  by (auto simp: setCoefficients_def setProjections_def split: option.splits if_splits)

theorem setters_replace_and_invalidate_witness:
  "setCoefficients
     \<lparr>m_context = Some (0::nat), m_space = Some \<lparr>grid = 0, dofsAssigned = True, globalDofCount = 2\<rparr>,
      m_dualSpace = Some \<lparr>grid = 0, dofsAssigned = True, globalDofCount = 3\<rparr>,
      m_coefficients = Some [1, 2], m_projections = Some [4, 5, 6::int]\<rparr> [7, 8]
   = (\<lparr>m_context = Some 0, m_space = Some \<lparr>grid = 0, dofsAssigned = True, globalDofCount = 2\<rparr>,
       m_dualSpace = Some \<lparr>grid = 0, dofsAssigned = True, globalDofCount = 3\<rparr>,
       m_coefficients = Some [7, 8], m_projections = None\<rparr>, Inr ())
   \<and> setProjections
     \<lparr>m_context = Some (0::nat), m_space = Some \<lparr>grid = 0, dofsAssigned = True, globalDofCount = 2\<rparr>,
      m_dualSpace = Some \<lparr>grid = 0, dofsAssigned = True, globalDofCount = 3\<rparr>,
      m_coefficients = Some [1, 2], m_projections = Some [4, 5, 6::int]\<rparr> [7, 8, 9]
   = (\<lparr>m_context = Some 0, m_space = Some \<lparr>grid = 0, dofsAssigned = True, globalDofCount = 2\<rparr>,
       m_dualSpace = Some \<lparr>grid = 0, dofsAssigned = True, globalDofCount = 3\<rparr>,
       m_coefficients = None, m_projections = Some [7, 8, 9]\<rparr>, Inr ())
   \<and> m_projections (fst (setCoefficients
     \<lparr>m_context = Some (0::nat), m_space = Some \<lparr>grid = 0, dofsAssigned = True, globalDofCount = 2\<rparr>,
      m_dualSpace = Some \<lparr>grid = 0, dofsAssigned = True, globalDofCount = 3\<rparr>,
      m_coefficients = Some [1, 2], m_projections = Some [4, 5, 6::int]\<rparr> [7, 8])) = None"
proof -
  let ?g = "\<lparr>m_context = Some (0::nat),
             m_space = Some \<lparr>grid = 0, dofsAssigned = True, globalDofCount = 2\<rparr>,
             m_dualSpace = Some \<lparr>grid = 0, dofsAssigned = True, globalDofCount = 3\<rparr>,
             m_coefficients = Some [1, 2], m_projections = Some [4, 5, 6::int]\<rparr>"
  let ?g' = "?g\<lparr>m_coefficients := Some [7, 8], m_projections := None\<rparr>"
  let ?g'' = "?g\<lparr>m_projections := Some [7, 8, 9], m_coefficients := None\<rparr>"
  have c: "setCoefficients ?g [7, 8] = (?g', Inr ())"
    by (simp add: setCoefficients_def)
  have p: "setProjections ?g [7, 8, 9] = (?g'', Inr ())"
    by (simp add: setProjections_def)
  from setters_replace_and_invalidate [of ?g "[7, 8]" ?g' "[7, 8, 9]" ?g''] c p
  show ?thesis by simp
qed

text \<open>
  C10. When the primal (dual) space is there and the length of the supplied vector
  differs from its number of global degrees of freedom, \<^verbatim>\<open>setCoefficients\<close>
  (\<^verbatim>\<open>setProjections\<close>) throws \<^verbatim>\<open>std::invalid_argument\<close> and the object is as it was
  before the call: in particular neither the coefficients nor the projections changed.
\<close>

theorem setters_atomic_on_length_error:
  "(m_space g = Some sp \<and> length v \<noteq> globalDofCount sp \<longrightarrow>
      is_invalid_argument (snd (setCoefficients g v)) \<and>
      fst (setCoefficients g v) = g \<and>
      m_coefficients (fst (setCoefficients g v)) = m_coefficients g \<and>
      m_projections (fst (setCoefficients g v)) = m_projections g) \<and>
   (m_dualSpace g = Some dsp \<and> length w \<noteq> globalDofCount dsp \<longrightarrow>
      is_invalid_argument (snd (setProjections g w)) \<and>
      fst (setProjections g w) = g \<and>
      m_coefficients (fst (setProjections g w)) = m_coefficients g \<and>
      m_projections (fst (setProjections g w)) = m_projections g)"
  by (simp add: setCoefficients_def setProjections_def is_invalid_argument_def)

theorem setters_atomic_on_length_error_witness:
  "is_invalid_argument (snd (setCoefficients
     \<lparr>m_context = Some (0::nat), m_space = Some \<lparr>grid = 0, dofsAssigned = True, globalDofCount = 2\<rparr>,
      m_dualSpace = Some \<lparr>grid = 0, dofsAssigned = True, globalDofCount = 3\<rparr>,
      m_coefficients = Some [1, 2], m_projections = Some [4, 5, 6::int]\<rparr> [7, 8, 9]))
   \<and> m_projections (fst (setCoefficients
     \<lparr>m_context = Some (0::nat), m_space = Some \<lparr>grid = 0, dofsAssigned = True, globalDofCount = 2\<rparr>,
      m_dualSpace = Some \<lparr>grid = 0, dofsAssigned = True, globalDofCount = 3\<rparr>,
      m_coefficients = Some [1, 2], m_projections = Some [4, 5, 6::int]\<rparr> [7, 8, 9])) = Some [4, 5, 6]
   \<and> is_invalid_argument (snd (setProjections
     \<lparr>m_context = Some (0::nat), m_space = Some \<lparr>grid = 0, dofsAssigned = True, globalDofCount = 2\<rparr>,
      m_dualSpace = Some \<lparr>grid = 0, dofsAssigned = True, globalDofCount = 3\<rparr>,
      m_coefficients = Some [1, 2], m_projections = Some [4, 5, 6::int]\<rparr> [7]))
   \<and> m_coefficients (fst (setProjections
     \<lparr>m_context = Some (0::nat), m_space = Some \<lparr>grid = 0, dofsAssigned = True, globalDofCount = 2\<rparr>,
      m_dualSpace = Some \<lparr>grid = 0, dofsAssigned = True, globalDofCount = 3\<rparr>,
      m_coefficients = Some [1, 2], m_projections = Some [4, 5, 6::int]\<rparr> [7])) = Some [1, 2]"
proof -
  let ?sp = "\<lparr>grid = 0, dofsAssigned = True, globalDofCount = 2\<rparr>"
  let ?dsp = "\<lparr>grid = 0, dofsAssigned = True, globalDofCount = 3\<rparr>"
  let ?g = "\<lparr>m_context = Some (0::nat), m_space = Some ?sp, m_dualSpace = Some ?dsp,
             m_coefficients = Some [1, 2], m_projections = Some [4, 5, 6::int]\<rparr>"
  from setters_atomic_on_length_error [of ?g ?sp "[7, 8, 9]" ?dsp "[7]"]
  show ?thesis by simp
qed

subsection \<open>Division by a scalar\<close>

lemma initialised_constructed:
  "GridFunction_data ctx sp dsp d t = Inr g \<Longrightarrow> initialised g"
  "GridFunction_both ctx sp dsp c p = Inr g' \<Longrightarrow> initialised g'"
  by (auto simp: GridFunction_data_def GridFunction_both_def checkArguments_def initialised_def
      split: option.splits if_splits sum.splits prod.splits)

lemma initialised_set:
  "initialised g \<Longrightarrow> setCoefficients g v = (g', Inr ()) \<Longrightarrow> initialised g'"
  "initialised g \<Longrightarrow> setProjections g w = (g'', Inr ()) \<Longrightarrow> initialised g''"
  by (auto simp: setCoefficients_def setProjections_def initialised_def
      split: option.splits if_splits)

lemma operator_times_not_divide_by_zero:
  "snd (operator_times mm cast g s) \<noteq> Inl divide_by_zero"
  by (auto simp: operator_times_def coefficients_def projections_def GridFunction_both_def
       checkArguments_def divide_by_zero_def external_failure_def Let_def
      split: option.splits if_splits sum.splits prod.splits)

lemma operator_times_returns:
  "initialised g \<Longrightarrow> \<exists>r. snd (operator_times mm cast g s) = Inr r \<and> initialised r"
  by (auto simp: operator_times_def coefficients_def projections_def GridFunction_both_def
       checkArguments_def initialised_def Let_def
      split: option.splits if_splits sum.splits prod.splits)

lemma operator_div_uninitialised:
  "s \<noteq> 0 \<Longrightarrow>
   snd (operator_div mm cast GridFunction0 s) =
     Inl (assertion_failure
       ''GridFunction::coefficients() must not be called on an uninitialised GridFunction object'')"
  by (simp add: operator_div_def scalar_times_def operator_times_def coefficients_def
      GridFunction0_def)

text \<open>
  C8. Division of a grid function by the scalar zero throws the divide-by-zero error at
  once, before the grid function is touched; the call ends with that error only when the
  scalar is zero. For a scalar \<open>s\<close> other than zero the call is the multiplication by
  \<open>1 / s\<close> from the left, in its result and in what it does to the argument's cached
  vectors, and on an initialised grid function it returns a grid function.
\<close>

theorem division_by_scalar:
  "operator_div mm cast g 0 = (g, Inl divide_by_zero) \<and>
   (snd (operator_div mm cast g s) = Inl divide_by_zero \<longleftrightarrow> s = 0) \<and>
   (s \<noteq> 0 \<longrightarrow> operator_div mm cast g s = scalar_times mm cast (1 / s) g) \<and>
   (s \<noteq> 0 \<and> initialised g \<longrightarrow>
      (\<exists>r. snd (operator_div mm cast g s) = Inr r \<and> initialised r))"
  using operator_times_not_divide_by_zero [of mm cast g "1 / s"]
    operator_times_returns [of g mm cast "1 / s"]
  by (simp add: operator_div_def scalar_times_def)

theorem division_by_scalar_witness:
  "snd (operator_div \<lparr>idApply = (\<lambda>_ _ _ _. 0), pinvIdApply = (\<lambda>_ _ _ _. 0)\<rparr> (\<lambda>x. x)
     \<lparr>m_context = Some (0::nat), m_space = Some \<lparr>grid = 0, dofsAssigned = True, globalDofCount = 2\<rparr>,
      m_dualSpace = Some \<lparr>grid = 0, dofsAssigned = True, globalDofCount = 3\<rparr>,
      m_coefficients = Some [1, 2], m_projections = Some [4, 5, 6::real]\<rparr> 2)
   = Inr \<lparr>m_context = Some 0, m_space = Some \<lparr>grid = 0, dofsAssigned = True, globalDofCount = 2\<rparr>,
      m_dualSpace = Some \<lparr>grid = 0, dofsAssigned = True, globalDofCount = 3\<rparr>,
      m_coefficients = Some [1 / 2, 1], m_projections = Some [2, 5 / 2, 3]\<rparr>
   \<and> snd (operator_div \<lparr>idApply = (\<lambda>_ _ _ _. 0), pinvIdApply = (\<lambda>_ _ _ _. 0)\<rparr> (\<lambda>x. x)
     \<lparr>m_context = Some (0::nat), m_space = Some \<lparr>grid = 0, dofsAssigned = True, globalDofCount = 2\<rparr>,
      m_dualSpace = Some \<lparr>grid = 0, dofsAssigned = True, globalDofCount = 3\<rparr>,
      m_coefficients = Some [1, 2], m_projections = Some [4, 5, 6::real]\<rparr> 0)
   = Inl divide_by_zero"
proof -
  let ?mm = "\<lparr>idApply = (\<lambda>_ _ _ _. 0::real), pinvIdApply = (\<lambda>_ _ _ _. 0)\<rparr>"
  let ?g = "\<lparr>m_context = Some (0::nat),
             m_space = Some \<lparr>grid = 0, dofsAssigned = True, globalDofCount = 2\<rparr>,
             m_dualSpace = Some \<lparr>grid = 0, dofsAssigned = True, globalDofCount = 3\<rparr>,
             m_coefficients = Some [1, 2], m_projections = Some [4, 5, 6::real]\<rparr>"
  have i: "(2::real) \<noteq> 0 \<and> initialised ?g"
    by (simp add: initialised_def)
  have t: "snd (scalar_times ?mm (\<lambda>x. x) (1 / 2) ?g)
      = Inr (?g\<lparr>m_coefficients := Some [1 / 2, 1], m_projections := Some [2, 5 / 2, 3]\<rparr>)"
    by (simp add: scalar_times_def operator_times_def coefficients_def projections_def
        GridFunction_both_def checkArguments_def)
  from division_by_scalar [of ?mm "\<lambda>x. x" ?g 2] division_by_scalar [of ?mm "\<lambda>x. x" ?g 0] i t
  show ?thesis by simp
qed

subsection \<open>Space accessors of a boundary operator\<close>

text \<open>
  C9. On a \<^verbatim>\<open>GeneralBoundaryOperator\<close> whose wrapped object reports the domain (range,
  dual-to-range) space as not valid, the property returns \<^verbatim>\<open>None\<close>: the getter of the
  wrapped object is not called, so it returns \<^verbatim>\<open>None\<close> also where that getter would fail.
  When the space is valid and the getter yields it, the property returns that space.
\<close>

theorem space_property_None_when_invalid:
  "(\<not> valid i v \<longrightarrow> space_property v (GeneralBoundaryOperator bt rt i) = Inr None) \<and>
   (valid i v \<and> space_of i v = Inr s \<longrightarrow>
      space_property v (GeneralBoundaryOperator bt rt i) = Inr (Some s))"
  by simp

theorem space_property_None_when_invalid_witness:
  "space_property var_domain (GeneralBoundaryOperator None None
     \<lparr>valid = (\<lambda>v. v = var_range),
      space_of = (\<lambda>v. if v = var_range then Inr (7::nat) else Inl (WrappedError ''unset'')),
      impl_label = ''A'',
      variant_weak_form = (Inl (WrappedError ''none'') :: exn + (int, unit) DiscreteOperator)\<rparr>)
   = Inr None
   \<and> space_property var_range (GeneralBoundaryOperator None None
     \<lparr>valid = (\<lambda>v. v = var_range),
      space_of = (\<lambda>v. if v = var_range then Inr (7::nat) else Inl (WrappedError ''unset'')),
      impl_label = ''A'',
      variant_weak_form = (Inl (WrappedError ''none'') :: exn + (int, unit) DiscreteOperator)\<rparr>)
   = Inr (Some 7)"
proof -
  let ?i = "\<lparr>valid = (\<lambda>v. v = var_range),
      space_of = (\<lambda>v. if v = var_range then Inr (7::nat) else Inl (WrappedError ''unset'')),
      impl_label = ''A'',
      variant_weak_form = (Inl (WrappedError ''none'') :: exn + (int, unit) DiscreteOperator)\<rparr>"
  have a: "\<not> valid ?i var_domain" by simp
  have b: "valid ?i var_range \<and> space_of ?i var_range = Inr 7" by simp
  from space_property_None_when_invalid [where i = ?i and v = var_domain]
    space_property_None_when_invalid [where i = ?i and v = var_range and s = 7] a b
  show ?thesis by blast
qed

subsection \<open>Labels\<close>

lemma label_Sum_init: "label (Sum_init a b) = ''('' @ label a @ ''+'' @ label b @ '')''"
  by (simp add: Sum_init_def)

lemma label_Scaled_init: "label (Scaled_init a alpha) = []"
  by (simp add: Scaled_init_def)

lemma label_Scaled_init_ignores_operand:
  "label (Scaled_init a alpha) = label (Scaled_init b beta)"
  by (simp add: Scaled_init_def)

text \<open>
  C6. The label of a Sum node is built from the labels of its operands. The label of a
  Scaled node is not: the constructor never assigns it, so it is the empty string whatever
  the operand and the scalar are. For the operators labelled \<open>A\<close> and \<open>B\<close>: the label of
  \<open>2 * A\<close> is empty and equal to the label of \<open>3 * B\<close>, the label of \<open>A + B\<close> is
  \<open>(A+B)\<close>, and the label of \<open>2 * A + B\<close> is \<open>(+B)\<close>.
\<close>

theorem scaled_label_is_empty:
  "label (Scaled_init (GeneralBoundaryOperator (Some ''float64'') (Some ''float64'')
       \<lparr>valid = (\<lambda>_. True), space_of = (\<lambda>_. Inr (0::nat)), impl_label = ''A'',
        variant_weak_form = Inr (Dense [[1::real]] :: (real, unit) DiscreteOperator)\<rparr>) 2) = []
   \<and> label (Scaled_init (GeneralBoundaryOperator (Some ''float64'') (Some ''float64'')
       \<lparr>valid = (\<lambda>_. True), space_of = (\<lambda>_. Inr (0::nat)), impl_label = ''A'',
        variant_weak_form = Inr (Dense [[1::real]] :: (real, unit) DiscreteOperator)\<rparr>) 2)
     = label (Scaled_init (GeneralBoundaryOperator (Some ''float64'') (Some ''float64'')
       \<lparr>valid = (\<lambda>_. True), space_of = (\<lambda>_. Inr (0::nat)), impl_label = ''B'',
        variant_weak_form = Inr (Dense [[1::real]] :: (real, unit) DiscreteOperator)\<rparr>) 3)
   \<and> label (Sum_init (GeneralBoundaryOperator (Some ''float64'') (Some ''float64'')
       \<lparr>valid = (\<lambda>_. True), space_of = (\<lambda>_. Inr (0::nat)), impl_label = ''A'',
        variant_weak_form = Inr (Dense [[1::real]] :: (real, unit) DiscreteOperator)\<rparr>)
      (GeneralBoundaryOperator (Some ''float64'') (Some ''float64'')
       \<lparr>valid = (\<lambda>_. True), space_of = (\<lambda>_. Inr (0::nat)), impl_label = ''B'',
        variant_weak_form = Inr (Dense [[1::real]] :: (real, unit) DiscreteOperator)\<rparr>)) = ''(A+B)''
   \<and> label (Sum_init (Scaled_init (GeneralBoundaryOperator (Some ''float64'') (Some ''float64'')
       \<lparr>valid = (\<lambda>_. True), space_of = (\<lambda>_. Inr (0::nat)), impl_label = ''A'',
        variant_weak_form = Inr (Dense [[1::real]] :: (real, unit) DiscreteOperator)\<rparr>) 2)
      (GeneralBoundaryOperator (Some ''float64'') (Some ''float64'')
       \<lparr>valid = (\<lambda>_. True), space_of = (\<lambda>_. Inr (0::nat)), impl_label = ''B'',
        variant_weak_form = Inr (Dense [[1::real]] :: (real, unit) DiscreteOperator)\<rparr>)) = ''(+B)''"
  by (simp add: Scaled_init_def Sum_init_def)

subsection \<open>The weak form of a sum\<close>

lemma mat_add_shape:
  "has_shape r c A \<Longrightarrow> has_shape r c B \<Longrightarrow> has_shape r c (mat_add A B)"
  by (auto simp: has_shape_def mat_add_def list_all_length)

lemma mat_add_nth:
  "has_shape r c A \<Longrightarrow> has_shape r c B \<Longrightarrow> i < r \<Longrightarrow> j < c \<Longrightarrow>
   mat_add A B ! i ! j = A ! i ! j + B ! i ! j"
  by (auto simp: has_shape_def mat_add_def list_all_length)

text \<open>
  C5. Let the weak forms of \<open>A\<close> and \<open>B\<close> exist and materialise to arrays of one shape.
  Then the weak form of the sum node \<open>A + B\<close> exists, and its materialisation has that
  shape and holds at every position the sum of the two entries at that position. The
  equality is exact, for every type of scalars with an addition, so the two arrays are
  within every tolerance of each other.
\<close>

theorem sum_weak_form_is_elementwise_sum:
  assumes "weak_form tbl ex A = Inr wa" and "weak_form tbl ex B = Inr wb"
    and "has_shape r c (materialize ex wa)" and "has_shape r c (materialize ex wb)"
  shows "\<exists>w. weak_form tbl ex (op_add A B) = Inr w \<and>
           has_shape r c (materialize ex w) \<and>
           (\<forall>i<r. \<forall>j<c. materialize ex w ! i ! j
                 = materialize ex wa ! i ! j + materialize ex wb ! i ! j) \<and>
           materialize ex w = mat_add (materialize ex wa) (materialize ex wb)"
proof -
  have w: "weak_form tbl ex (op_add A B) = Inr (discrete_add wa wb)"
    using assms(1,2) by (simp add: op_add_def Sum_init_def)
  have m: "materialize ex (discrete_add wa wb) = mat_add (materialize ex wa) (materialize ex wb)"
    by (simp add: discrete_add_def)
  show ?thesis
    using w m mat_add_shape [OF assms(3,4)] mat_add_nth [OF assms(3,4)] by simp
qed

theorem sum_weak_form_is_elementwise_sum_witness:
  "\<exists>w. weak_form [(''float64'', ''float64'')] (\<lambda>_::unit. [])
      (op_add
        (GeneralBoundaryOperator (Some ''float64'') (Some ''float64'')
          \<lparr>valid = (\<lambda>_. True), space_of = (\<lambda>_. Inr (0::nat)), impl_label = ''A'',
           variant_weak_form = Inr (Dense [[1, 2], [3, 4::int]])\<rparr>)
        (GeneralBoundaryOperator (Some ''float64'') (Some ''float64'')
          \<lparr>valid = (\<lambda>_. True), space_of = (\<lambda>_. Inr (0::nat)), impl_label = ''B'',
           variant_weak_form = Inr (Sparse 2 2 [((0, 0), 10), ((1, 1), 20)])\<rparr>)) = Inr w
     \<and> materialize (\<lambda>_::unit. []) w = [[11, 2], [3, 24]]"
proof -
  let ?tbl = "[(''float64'', ''float64'')]"
  let ?ex = "\<lambda>_::unit. [] :: int mat"
  let ?wa = "Dense [[1, 2], [3, 4::int]] :: (int, unit) DiscreteOperator"
  let ?wb = "Sparse 2 2 [((0, 0), 10), ((1, 1), 20::int)] :: (int, unit) DiscreteOperator"
  let ?A = "GeneralBoundaryOperator (Some ''float64'') (Some ''float64'')
          \<lparr>valid = (\<lambda>_. True), space_of = (\<lambda>_. Inr (0::nat)), impl_label = ''A'',
           variant_weak_form = Inr ?wa\<rparr>"
  let ?B = "GeneralBoundaryOperator (Some ''float64'') (Some ''float64'')
          \<lparr>valid = (\<lambda>_. True), space_of = (\<lambda>_. Inr (0::nat)), impl_label = ''B'',
           variant_weak_form = Inr ?wb\<rparr>"
  have a: "weak_form ?tbl ?ex ?A = Inr ?wa" by simp
  have b: "weak_form ?tbl ?ex ?B = Inr ?wb" by simp
  have mb: "materialize ?ex ?wb = [[10, 0], [0, 20]]"
    by (simp add: upt_rec)
  have sa: "has_shape 2 2 (materialize ?ex ?wa)" by (simp add: has_shape_def)
  have sb: "has_shape 2 2 (materialize ?ex ?wb)"
    unfolding mb by (simp add: has_shape_def)
  from sum_weak_form_is_elementwise_sum [OF a b sa sb]
  obtain w where w: "weak_form ?tbl ?ex (op_add ?A ?B) = Inr w"
    and m: "materialize ?ex w = mat_add (materialize ?ex ?wa) (materialize ?ex ?wb)"
    by blast
  have "mat_add (materialize ?ex ?wa) (materialize ?ex ?wb) = [[11, 2], [3, 24]]"
    unfolding mb by (simp add: mat_add_def)
  with w m show ?thesis by auto
qed

subsection \<open>Arrays\<close>

lemma has_shape_zero_mat: "has_shape r c (zero_mat r c)"
  by (simp add: has_shape_def zero_mat_def list_all_length)

lemma has_shape_embed: "has_shape nr nc (embed nr nc r0 c0 B)"
  by (simp add: has_shape_def embed_def list_all_length)

lemma mat_eqI:
  assumes "has_shape r c A" and "has_shape r c B"
    and "\<And>i j. i < r \<Longrightarrow> j < c \<Longrightarrow> A ! i ! j = B ! i ! j"
  shows "A = B"
proof (rule nth_equalityI)
  show "length A = length B" using assms(1,2) by (simp add: has_shape_def)
next
  fix i assume i: "i < length A"
  then have ir: "i < r" using assms(1) by (simp add: has_shape_def)
  have la: "length (A ! i) = c" using assms(1) i by (simp add: has_shape_def list_all_length)
  have lb: "length (B ! i) = c" using assms(1,2) i by (simp add: has_shape_def list_all_length)
  show "A ! i = B ! i"
    by (rule nth_equalityI) (use la lb ir assms(3) in auto)
qed

lemma zero_mat_nth: "i < r \<Longrightarrow> j < c \<Longrightarrow> zero_mat r c ! i ! j = 0"
  by (simp add: zero_mat_def)

lemma embed_nth:
  "r < nr \<Longrightarrow> c < nc \<Longrightarrow>
   embed nr nc r0 c0 B ! r ! c =
     (if r0 \<le> r \<and> r - r0 < length B \<and> c0 \<le> c \<and> c - c0 < length (B ! (r - r0))
      then B ! (r - r0) ! (c - c0) else 0)"
  by (simp add: embed_def)


lemma mat_add_zero_left:
  fixes M :: "'a::monoid_add mat"
  assumes "has_shape r c M"
  shows "mat_add (zero_mat r c) M = M"
  by (rule mat_eqI [OF mat_add_shape [OF has_shape_zero_mat assms] assms])
     (simp add: mat_add_nth [OF has_shape_zero_mat assms] zero_mat_nth)

lemma embed_whole:
  assumes "has_shape r c B"
  shows "embed r c 0 0 B = B"
proof (rule mat_eqI [OF has_shape_embed assms])
  fix i j assume "i < r" "j < c"
  then show "embed r c 0 0 B ! i ! j = B ! i ! j"
    using assms by (simp add: embed_nth has_shape_def list_all_length)
qed


lemma has_shape_placeBlock:
  "has_shape nr nc M \<Longrightarrow> has_shape nr nc (placeBlock nr nc roff coff ex M b)"
  by (cases b) (auto simp: placeBlock_def intro: mat_add_shape has_shape_embed)

lemma has_shape_foldl_placeBlock:
  "has_shape nr nc M \<Longrightarrow> has_shape nr nc (foldl (placeBlock nr nc roff coff ex) M ds)"
  by (induction ds arbitrary: M) (simp_all add: has_shape_placeBlock)

lemma has_shape_blockMatrix: "has_shape nr nc (blockMatrix nr nc roff coff ex ds)"
  by (simp add: blockMatrix_def has_shape_foldl_placeBlock has_shape_zero_mat)

lemma offsets_one: "offsets [n] = [0]"
  by (simp add: offsets_def)

lemma offsets_two: "offsets [n, m] = [0, n]"
  by (simp add: offsets_def upt_rec)

lemma has_shape_append:
  "has_shape r c A \<Longrightarrow> has_shape r' c B \<Longrightarrow> has_shape (r + r') c (A @ B)"
  by (simp add: has_shape_def)

lemma has_shape_exampleMatrix: "has_shape r c (exampleMatrix r c)"
  by (simp add: has_shape_def exampleMatrix_def list_all_length)

subsection \<open>The weak form of a blocked operator\<close>

lemma setBlock_first:
  "\<exists>S. setBlock nd emptyStructure 0 0 node = Inr S \<and>
       rowCount S = 1 \<and> columnCount S = 1 \<and> block S = (\<lambda>_. None)((0, 0) := Some node) \<and>
       rowSpace S 0 = Some (rangeOf nd node, dualToRangeOf nd node) \<and>
       columnSpace S 0 = Some (domainOf nd node)"
  by (simp add: setBlock_def emptyStructure_def rowSpace_def columnSpace_def)

lemma wellBuilt_lengths:
  "wellBuilt nd S \<Longrightarrow>
   length (rowSpaces S) = rowCount S \<and> length (columnSpaces S) = columnCount S"
  by (simp add: wellBuilt_def)

lemma wellBuilt_last_row:
  "wellBuilt nd S \<Longrightarrow> rowCount S = 0 \<or> (\<exists>j. block S (rowCount S - 1, j) \<noteq> None)"
  by (simp add: wellBuilt_def)

lemma wellBuilt_last_column:
  "wellBuilt nd S \<Longrightarrow> columnCount S = 0 \<or> (\<exists>i. block S (i, columnCount S - 1) \<noteq> None)"
  by (simp add: wellBuilt_def)

lemma wellBuilt_populated:
  "wellBuilt nd S \<Longrightarrow> block S (i, j) = Some n \<Longrightarrow>
   i < rowCount S \<and> j < columnCount S \<and>
   rowSpaces S ! i = Some (rangeOf nd n, dualToRangeOf nd n) \<and>
   columnSpaces S ! j = Some (domainOf nd n)"
  by (simp add: wellBuilt_def)

lemma wellBuilt_emptyStructure: "wellBuilt nd emptyStructure"
  by (simp add: wellBuilt_def emptyStructure_def)

lemma wellBuilt_setBlock:
  assumes "wellBuilt nd S" and "setBlock nd S i j node = Inr S'"
  shows "wellBuilt nd S'"
proof -
  let ?R = "max (rowCount S) (Suc i)" and ?C = "max (columnCount S) (Suc j)"
  let ?pair = "(rangeOf nd node, dualToRangeOf nd node)" and ?dom = "domainOf nd node"
  let ?rs = "rowSpaces S @ replicate (?R - rowCount S) None"
  let ?cs = "columnSpaces S @ replicate (?C - columnCount S) None"
  from wellBuilt_lengths [OF assms(1)] have lr: "length (rowSpaces S) = rowCount S"
    and lc: "length (columnSpaces S) = columnCount S" by simp_all
  note lastr = wellBuilt_last_row [OF assms(1)]
  note lastc = wellBuilt_last_column [OF assms(1)]
  note pop = wellBuilt_populated [OF assms(1)]
  have ok: "\<not> ((case ?rs ! i of None \<Rightarrow> False | Some p \<Rightarrow> p \<noteq> ?pair) \<or>
            (case ?cs ! j of None \<Rightarrow> False | Some d \<Rightarrow> d \<noteq> ?dom))"
    and S': "S' = \<lparr>rowCount = ?R, columnCount = ?C, block = (block S)((i, j) := Some node),
                   rowSpaces = ?rs[i := Some ?pair], columnSpaces = ?cs[j := Some ?dom]\<rparr>"
    using assms(2) unfolding setBlock_def Let_def lr lc by (simp_all split: if_splits)
  from ok have okr: "?rs ! i = None \<or> ?rs ! i = Some ?pair"
    by (cases "?rs ! i") simp_all
  from ok have okc: "?cs ! j = None \<or> ?cs ! j = Some ?dom"
    by (cases "?cs ! j") simp_all
  have RS: "rowCount S' = ?R" and CS: "columnCount S' = ?C"
    and bS: "block S' = (block S)((i, j) := Some node)"
    and rS: "rowSpaces S' = ?rs[i := Some ?pair]" and cS: "columnSpaces S' = ?cs[j := Some ?dom]"
    by (simp_all add: S')
  have l1: "length (rowSpaces S') = rowCount S'" and l2: "length (columnSpaces S') = columnCount S'"
    by (simp_all add: RS CS rS cS lr lc)
  have r: "rowCount S' = 0 \<or> (\<exists>j. block S' (rowCount S' - 1, j) \<noteq> None)"
  proof (cases "rowCount S \<le> i")
    case True
    then have "rowCount S' - 1 = i" by (simp add: RS max_def)
    then have "block S' (rowCount S' - 1, j) \<noteq> None" by (simp add: bS)
    then show ?thesis by blast
  next
    case False
    then have e: "rowCount S' = rowCount S" and "rowCount S \<noteq> 0" by (simp_all add: RS max_def)
    with lastr obtain j0 where "block S (rowCount S - 1, j0) \<noteq> None" by blast
    then have "block S' (rowCount S' - 1, j0) \<noteq> None" by (simp add: bS e)
    then show ?thesis by blast
  qed
  have c: "columnCount S' = 0 \<or> (\<exists>i. block S' (i, columnCount S' - 1) \<noteq> None)"
  proof (cases "columnCount S \<le> j")
    case True
    then have "columnCount S' - 1 = j" by (simp add: CS max_def)
    then have "block S' (i, columnCount S' - 1) \<noteq> None" by (simp add: bS)
    then show ?thesis by blast
  next
    case False
    then have e: "columnCount S' = columnCount S" and "columnCount S \<noteq> 0"
      by (simp_all add: CS max_def)
    with lastc obtain i0 where "block S (i0, columnCount S - 1) \<noteq> None" by blast
    then have "block S' (i0, columnCount S' - 1) \<noteq> None" by (simp add: bS e)
    then show ?thesis by blast
  qed
  have li: "i < length ?rs" and lj: "j < length ?cs" by (simp_all add: lr lc max_def)
  have p: "i' < rowCount S' \<and> j' < columnCount S' \<and>
        rowSpaces S' ! i' = Some (rangeOf nd n, dualToRangeOf nd n) \<and>
        columnSpaces S' ! j' = Some (domainOf nd n)"
    if b: "block S' (i', j') = Some n" for i' j' n
  proof (cases "(i', j') = (i, j)")
    case True
    then have "n = node" "i' = i" "j' = j" using b by (simp_all add: bS)
    then show ?thesis using li lj by (simp add: RS CS rS cS less_max_iff_disj)
  next
    case False
    then have "block S (i', j') = Some n" using b by (simp add: bS split: if_splits)
    from pop [OF this] have i': "i' < rowCount S" and j': "j' < columnCount S"
      and ri: "rowSpaces S ! i' = Some (rangeOf nd n, dualToRangeOf nd n)"
      and cj: "columnSpaces S ! j' = Some (domainOf nd n)" by simp_all
    have ri': "?rs ! i' = Some (rangeOf nd n, dualToRangeOf nd n)"
      using i' ri by (simp add: nth_append lr)
    have cj': "?cs ! j' = Some (domainOf nd n)"
      using j' cj by (simp add: nth_append lc)
    have "?rs[i := Some ?pair] ! i' = Some (rangeOf nd n, dualToRangeOf nd n)"
    proof (cases "i' = i")
      case True
      with okr ri' have "?pair = (rangeOf nd n, dualToRangeOf nd n)" by simp
      then show ?thesis using True li by simp
    next
      case False
      then show ?thesis using ri' by simp
    qed
    moreover have "?cs[j := Some ?dom] ! j' = Some (domainOf nd n)"
    proof (cases "j' = j")
      case True
      with okc cj' have "?dom = domainOf nd n" by simp
      then show ?thesis using True lj by simp
    next
      case False
      then show ?thesis using cj' by simp
    qed
    ultimately show ?thesis using i' j' by (simp add: RS CS rS cS less_max_iff_disj)
  qed
  show ?thesis unfolding wellBuilt_def
    by (intro conjI allI impI l1 l2 r c) (use p in simp_all)
qed

lemma wellBuilt_setBlocks:
  "wellBuilt nd S \<Longrightarrow> setBlocks nd S zs = Inr S' \<Longrightarrow> wellBuilt nd S'"
proof (induction zs arbitrary: S)
  case Nil
  then show ?case by simp
next
  case (Cons e zs)
  obtain i j z where e: "e = (i, j, z)" by (cases e)
  from Cons.prems(2) obtain S1 where s: "setBlock nd S i j z = Inr S1"
    and r: "setBlocks nd S1 zs = Inr S'"
    by (auto simp: e split: sum.splits)
  from wellBuilt_setBlock [OF Cons.prems(1) s] have "wellBuilt nd S1" .
  from Cons.IH [OF this r] show ?case .
qed

lemma single_block_structure:
  assumes "setBlocks nd emptyStructure zs = Inr S"
    and "block S (0, 0) = Some node" and "\<forall>p. p \<noteq> (0, 0) \<longrightarrow> block S p = None"
  shows "rowCount S = 1 \<and> columnCount S = 1 \<and>
         rowSpace S 0 = Some (rangeOf nd node, dualToRangeOf nd node) \<and>
         columnSpace S 0 = Some (domainOf nd node)"
proof -
  have w: "wellBuilt nd S"
    by (rule wellBuilt_setBlocks [OF wellBuilt_emptyStructure assms(1)])
  from wellBuilt_populated [OF w assms(2)]
  have pos: "0 < rowCount S" "0 < columnCount S"
    and sp: "rowSpaces S ! 0 = Some (rangeOf nd node, dualToRangeOf nd node)"
      "columnSpaces S ! 0 = Some (domainOf nd node)"
    by simp_all
  from wellBuilt_lengths [OF w]
  have len: "length (rowSpaces S) = rowCount S" "length (columnSpaces S) = columnCount S"
    by simp_all
  have "\<exists>j0. block S (rowCount S - 1, j0) \<noteq> None"
    using wellBuilt_last_row [OF w] pos(1) by simp
  then obtain j0 where j0: "block S (rowCount S - 1, j0) \<noteq> None" ..
  have "(rowCount S - 1, j0) = (0, 0)"
  proof (rule ccontr)
    assume n: "(rowCount S - 1, j0) \<noteq> (0, 0)"
    have "block S (rowCount S - 1, j0) = None" by (rule assms(3) [rule_format, OF n])
    with j0 show False by simp
  qed
  then have R: "rowCount S = 1" using pos by simp
  have "\<exists>i0. block S (i0, columnCount S - 1) \<noteq> None"
    using wellBuilt_last_column [OF w] pos(2) by simp
  then obtain i0 where i0: "block S (i0, columnCount S - 1) \<noteq> None" ..
  have "(i0, columnCount S - 1) = (0, 0)"
  proof (rule ccontr)
    assume n: "(i0, columnCount S - 1) \<noteq> (0, 0)"
    have "block S (i0, columnCount S - 1) = None" by (rule assms(3) [rule_format, OF n])
    with i0 show False by simp
  qed
  then have C: "columnCount S = 1" using pos by simp
  show ?thesis using R C sp len by (simp add: rowSpace_def columnSpace_def)
qed

lemma weakForm_one_by_one:
  fixes nd :: "('n, 'a::monoid_add, 'h) nodeInterface"
  assumes "rowCount S = 1" and "columnCount S = 1" and "block S (0, 0) = Some node"
    and "rowSpace S 0 = Some (rg, dl)" and "columnSpace S 0 = Some dm"
    and "discretize nd node = Inr d"
    and "has_shape (globalDofCount dl) (globalDofCount dm) (materialize ex d)"
  shows "\<exists>G. weakForm nd ex S = Inr G \<and> materialize ex G = materialize ex d \<and>
           has_shape (globalDofCount dl) (globalDofCount dm) (materialize ex G)"
proof -
  let ?n = "globalDofCount dl" and ?m = "globalDofCount dm"
  let ?B = "materialize ex d"
  have ds: "discretizeBlocks (discretize nd) (block S) [(0, 0)] = Inr [((0, 0), d)]"
    using assms(3,6) by simp
  have bm: "blockMatrix ?n ?m [0] [0] ex [((0, 0), d)] = ?B"
    using assms(7)
    by (simp add: blockMatrix_def placeBlock_def embed_whole mat_add_zero_left)
  have "weakForm nd ex S = Inr (Dense ?B)"
    using assms(1,2,4,5) ds bm by (simp add: weakForm_def offsets_one)
  then show ?thesis using assms(7) by simp
qed

text \<open>
  C1. Let a structure be built from the empty one by \<^verbatim>\<open>setBlock\<close> and hold exactly one
  block, at position (0, 0). Then \<^verbatim>\<open>weakForm()\<close> returns an operator that materialises to
  the array the block's own discretisation materialises to, when that array has the shape
  of the block's spaces: as many rows as the dual-to-range space has degrees of freedom
  and as many columns as the domain space has. The materialisation has this shape too;
  with 12 and 12 degrees of freedom it is (12, 12).
\<close>

theorem single_block_weak_form:
  fixes nd :: "('n, 'a::monoid_add, 'h) nodeInterface"
  assumes "setBlocks nd emptyStructure zs = Inr S"
    and "block S (0, 0) = Some node" and "\<forall>p. p \<noteq> (0, 0) \<longrightarrow> block S p = None"
    and "discretize nd node = Inr d"
    and "has_shape (globalDofCount (dualToRangeOf nd node)) (globalDofCount (domainOf nd node))
           (materialize ex d)"
  shows "\<exists>G. weakForm nd ex S = Inr G \<and> materialize ex G = materialize ex d \<and>
           has_shape (globalDofCount (dualToRangeOf nd node)) (globalDofCount (domainOf nd node))
             (materialize ex G)"
proof -
  from single_block_structure [OF assms(1,2,3)]
  have "rowCount S = 1" and "columnCount S = 1"
    and "rowSpace S 0 = Some (rangeOf nd node, dualToRangeOf nd node)"
    and "columnSpace S 0 = Some (domainOf nd node)" by simp_all
  then show ?thesis
    by (rule weakForm_one_by_one [OF _ _ assms(2) _ _ assms(4,5)])
qed

theorem single_block_weak_form_witness:
  "\<exists>S G. setBlocks exampleInterface emptyStructure
        [(0, 0, ((exampleSpace 0 12, exampleSpace 0 12, exampleSpace 0 12), exampleMatrix 12 12))]
      = Inr S \<and>
     weakForm exampleInterface (\<lambda>_. []) S = Inr G \<and>
     materialize (\<lambda>_. []) G = exampleMatrix 12 12 \<and>
     has_shape 12 12 (materialize (\<lambda>_. []) G)"
proof -
  let ?n = "((exampleSpace 0 12, exampleSpace 0 12, exampleSpace 0 12), exampleMatrix 12 12)"
  let ?d = "Dense (exampleMatrix 12 12) :: (int, unit) DiscreteOperator"
  from setBlock_first [of exampleInterface ?n] obtain S where
    s: "setBlock exampleInterface emptyStructure 0 0 ?n = Inr S"
    and b: "block S = (\<lambda>_. None)((0, 0) := Some ?n)" by blast
  have s': "setBlocks exampleInterface emptyStructure [(0, 0, ?n)] = Inr S"
    by (simp add: s)
  have b0: "block S (0, 0) = Some ?n" and b1: "\<forall>p. p \<noteq> (0, 0) \<longrightarrow> block S p = None"
    by (simp_all add: b)
  have d: "discretize exampleInterface ?n = Inr ?d"
    by (simp add: exampleInterface_def)
  have h: "has_shape (globalDofCount (dualToRangeOf exampleInterface ?n))
      (globalDofCount (domainOf exampleInterface ?n)) (materialize (\<lambda>_. []) ?d)"
    by (simp add: exampleInterface_def exampleSpace_def has_shape_exampleMatrix)
  from single_block_weak_form [OF s' b0 b1 d h]
  have "\<exists>G. weakForm exampleInterface (\<lambda>_. []) S = Inr G \<and>
      materialize (\<lambda>_. []) G = exampleMatrix 12 12 \<and>
      has_shape 12 12 (materialize (\<lambda>_. []) G)"
    by (simp add: exampleInterface_def exampleSpace_def)
  with s' show ?thesis by blast
qed

text \<open>
  C2. For a structure of two block rows and one block column with both blocks populated,
  \<open>A\<close> in row 0 and \<open>B\<close> in row 1, \<^verbatim>\<open>weakForm()\<close> returns an operator that materialises
  to the rows of the materialisation of \<open>A\<close>'s discretisation followed by the rows of the
  materialisation of \<open>B\<close>'s, when each of the two arrays has the shape of its block's
  spaces.
\<close>

theorem stacked_two_by_one:
  fixes nd :: "('n, 'a::monoid_add, 'h) nodeInterface"
  assumes "rowCount S = 2" and "columnCount S = 1"
    and "block S (0, 0) = Some A" and "block S (1, 0) = Some B"
    and "rowSpace S 0 = Some (rgA, dlA)" and "rowSpace S 1 = Some (rgB, dlB)"
    and "columnSpace S 0 = Some dm"
    and "discretize nd A = Inr a" and "discretize nd B = Inr b"
    and "has_shape (globalDofCount dlA) (globalDofCount dm) (materialize ex a)"
    and "has_shape (globalDofCount dlB) (globalDofCount dm) (materialize ex b)"
  shows "\<exists>G. weakForm nd ex S = Inr G \<and>
           materialize ex G = materialize ex a @ materialize ex b"
proof -
  let ?n0 = "globalDofCount dlA" and ?n1 = "globalDofCount dlB" and ?m = "globalDofCount dm"
  let ?A = "materialize ex a" and ?B = "materialize ex b"
  let ?G = "blockMatrix (?n0 + ?n1) ?m [0, ?n0] [0] ex [((0, 0), a), ((1, 0), b)]"
  have ds: "discretizeBlocks (discretize nd) (block S) [(0, 0), (1, 0)]
      = Inr [((0, 0), a), ((1, 0), b)]"
    using assms(3,4,8,9) by simp
  have lA: "length ?A = ?n0" and lB: "length ?B = ?n1"
    using assms(10,11) by (simp_all add: has_shape_def)
  have rA: "\<And>i. i < ?n0 \<Longrightarrow> length (?A ! i) = ?m"
    and rB: "\<And>i. i < ?n1 \<Longrightarrow> length (?B ! i) = ?m"
    using assms(10,11) by (simp_all add: has_shape_def list_all_length)
  let ?EA = "embed (?n0 + ?n1) ?m 0 0 ?A" and ?EB = "embed (?n0 + ?n1) ?m ?n0 0 ?B"
  have G: "?G = mat_add (mat_add (zero_mat (?n0 + ?n1) ?m) ?EA) ?EB"
    by (simp add: blockMatrix_def placeBlock_def)
  have s1: "has_shape (?n0 + ?n1) ?m (mat_add (zero_mat (?n0 + ?n1) ?m) ?EA)"
    by (intro mat_add_shape has_shape_zero_mat has_shape_embed)
  have "?G = ?A @ ?B"
  proof (rule mat_eqI [where r = "?n0 + ?n1" and c = ?m])
    show "has_shape (?n0 + ?n1) ?m ?G" by (rule has_shape_blockMatrix)
    show "has_shape (?n0 + ?n1) ?m (?A @ ?B)"
      by (rule has_shape_append [OF assms(10,11)])
  next
    fix i j assume i: "i < ?n0 + ?n1" and j: "j < ?m"
    have e: "?G ! i ! j = (0 + ?EA ! i ! j) + ?EB ! i ! j"
      unfolding G
      by (simp add: mat_add_nth [OF s1 has_shape_embed i j]
          mat_add_nth [OF has_shape_zero_mat has_shape_embed i j] zero_mat_nth [OF i j])
    show "?G ! i ! j = (?A @ ?B) ! i ! j"
    proof (cases "i < ?n0")
      case True
      then show ?thesis
        unfolding e using i j lA rA [of i] by (simp add: embed_nth nth_append)
    next
      case False
      then have "i - ?n0 < ?n1" using i by simp
      then show ?thesis
        unfolding e using False i j lA lB rB [of "i - ?n0"]
        by (simp add: embed_nth nth_append)
    qed
  qed
  moreover have "weakForm nd ex S = Inr (Dense ?G)"
    using assms(1,2,5,6,7) ds
    by (simp add: weakForm_def offsets_one offsets_two upt_rec)
  ultimately show ?thesis by simp
qed

theorem stacked_two_by_one_witness:
  "\<exists>G. weakForm exampleInterface (\<lambda>_. [])
      \<lparr>rowCount = 2, columnCount = 1,
       block = (\<lambda>p. if p = (0, 0)
                    then Some ((exampleSpace 0 8, exampleSpace 0 8, exampleSpace 0 12),
                               exampleMatrix 12 8)
                    else if p = (1, 0)
                    then Some ((exampleSpace 0 8, exampleSpace 1 12, exampleSpace 1 8),
                               exampleMatrix 8 8)
                    else None),
       rowSpaces = [Some (exampleSpace 0 8, exampleSpace 0 12),
                    Some (exampleSpace 1 12, exampleSpace 1 8)],
       columnSpaces = [Some (exampleSpace 0 8)]\<rparr> = Inr G
     \<and> materialize (\<lambda>_. []) G = exampleMatrix 12 8 @ exampleMatrix 8 8"
proof -
  let ?A = "((exampleSpace 0 8, exampleSpace 0 8, exampleSpace 0 12), exampleMatrix 12 8)"
  let ?B = "((exampleSpace 0 8, exampleSpace 1 12, exampleSpace 1 8), exampleMatrix 8 8)"
  let ?a = "Dense (exampleMatrix 12 8) :: (int, unit) DiscreteOperator"
  let ?b = "Dense (exampleMatrix 8 8) :: (int, unit) DiscreteOperator"
  have sa: "has_shape (globalDofCount (exampleSpace 0 12)) (globalDofCount (exampleSpace 0 8))
      (materialize (\<lambda>_. []) ?a)"
    by (simp add: exampleSpace_def has_shape_exampleMatrix)
  have sb: "has_shape (globalDofCount (exampleSpace 1 8)) (globalDofCount (exampleSpace 0 8))
      (materialize (\<lambda>_. []) ?b)"
    by (simp add: exampleSpace_def has_shape_exampleMatrix)
  have "\<exists>G. weakForm exampleInterface (\<lambda>_. [])
      \<lparr>rowCount = 2, columnCount = 1,
       block = (\<lambda>p. if p = (0, 0) then Some ?A else if p = (1, 0) then Some ?B else None),
       rowSpaces = [Some (exampleSpace 0 8, exampleSpace 0 12),
                    Some (exampleSpace 1 12, exampleSpace 1 8)],
       columnSpaces = [Some (exampleSpace 0 8)]\<rparr> = Inr G \<and>
      materialize (\<lambda>_. []) G = materialize (\<lambda>_. []) ?a @ materialize (\<lambda>_. []) ?b"
    by (rule stacked_two_by_one [where A = ?A and B = ?B and rgA = "exampleSpace 0 8"
          and rgB = "exampleSpace 1 12", OF _ _ _ _ _ _ _ _ _ sa sb])
       (simp_all add: rowSpace_def columnSpace_def exampleInterface_def)
  then show ?thesis by simp
qed

subsection \<open>Empty blocks\<close>















lemma weakForm_exampleWithEmptyRow:
  "weakForm exampleInterface (\<lambda>_. []) exampleWithEmptyRow
     = Inr (Dense [[8, 9, 0], [0, 0, 0], [0, 0, 0]])"
  by code_simp


subsection \<open>The interleaved layout\<close>
































end
